theory Spec2Isabelle
  imports Complex_Main "HOL-Library.Word" "HOL-Library.Monad_Syntax"
begin

section \<open>Data of TwoStepNPTGPU.cu\<close>

text \<open>
  The kernels compute in single precision. Here a \<^verbatim>\<open>float\<close> is a real number and the
  arithmetic is exact: rounding, overflow to infinity and NaN are outside this model.
  Counters and indices (\<^verbatim>\<open>unsigned int\<close>, \<^verbatim>\<open>int\<close>) are 32-bit words, whose arithmetic
  wraps around as the machine's does. A device array is a function from the element index
  to the element; an index is read as its unsigned value.
\<close>

record float4 =
  fx :: real
  fy :: real
  fz :: real
  fw :: real

record int4 =
  ix :: "32 word"
  iy :: "32 word"
  iz :: "32 word"
  iw :: "32 word"

text \<open>
  Modelled from the spec: the header that declares \<^verbatim>\<open>gpu_pdata_arrays\<close> and
  \<^verbatim>\<open>gpu_boxsize\<close> is not part of the sources. The fields below are the ones
  TwoStepNPTGPU.cu reads and writes; the counts are taken as \<^verbatim>\<open>unsigned int\<close>, the
  type of \<^verbatim>\<open>group_size\<close> and \<^verbatim>\<open>block_size\<close>.
\<close>

record gpu_pdata_arrays =
  N :: "32 word"
  local_num :: "32 word"
  pos :: "nat \<Rightarrow> float4"
  vel :: "nat \<Rightarrow> float4"
  accel :: "nat \<Rightarrow> float4"
  mass :: "nat \<Rightarrow> real"
  image_arr :: "nat \<Rightarrow> int4"

record gpu_boxsize =
  Lx :: real
  Ly :: real
  Lz :: real
  Lxinv :: real
  Lyinv :: real
  Lzinv :: real

section \<open>The CUDA runtime as the drivers see it\<close>

datatype cudaError_t = cudaSuccess | cudaError nat

datatype texref =
  Pdata_pos_tex | Pdata_vel_tex | Pdata_accel_tex | Pdata_mass_tex | Pdata_image_tex
  | Net_force_tex

text \<open>
  The texture references of the file. A bound texture is a read-only view of an array as it
  stood when it was bound: a fetch during a launch never sees a write of that launch.
\<close>

record textures =
  pdata_pos_tex :: "nat \<Rightarrow> float4"
  pdata_vel_tex :: "nat \<Rightarrow> float4"
  pdata_accel_tex :: "nat \<Rightarrow> float4"
  pdata_mass_tex :: "nat \<Rightarrow> real"
  pdata_image_tex :: "nat \<Rightarrow> int4"
  net_force_tex :: "nat \<Rightarrow> float4"

text \<open>
  What the runtime answers is not decided by this file, so it is a parameter of the model:
  \<open>bind_status\<close> is the answer of \<^verbatim>\<open>cudaBindTexture\<close> for each texture reference,
  \<open>launch_status\<close> the verdict of the launch call on a grid and block size,
  \<open>kernel_status\<close> the fault raised while the launched kernel runs, if any.
  \<open>last_error\<close> is the error the runtime keeps for \<^verbatim>\<open>cudaGetLastError\<close>,
  \<open>launched\<close> counts the kernels that were started, and \<open>g_gpu_error_checking\<close> is
  the process-wide flag of gpu_settings.h.
\<close>

record device =
  g_gpu_error_checking :: bool
  bind_status :: "texref \<Rightarrow> cudaError_t"
  launch_status :: "32 word \<Rightarrow> 32 word \<Rightarrow> cudaError_t"
  kernel_status :: cudaError_t
  last_error :: cudaError_t
  launched :: nat
  texs :: textures

definition cudaBindTexture ::
  "device \<Rightarrow> texref \<Rightarrow> (textures \<Rightarrow> textures) \<Rightarrow> cudaError_t \<times> device" where
  "cudaBindTexture dev t view =
     (let error = bind_status dev t in
      if error = cudaSuccess then (error, dev\<lparr>texs := view (texs dev)\<rparr>)
      else (error, dev\<lparr>last_error := error\<rparr>))"

definition cudaThreadSynchronize :: "device \<Rightarrow> device" where
  "cudaThreadSynchronize dev =
     (if kernel_status dev = cudaSuccess then dev
      else dev\<lparr>last_error := kernel_status dev\<rparr>)"

definition cudaGetLastError :: "device \<Rightarrow> cudaError_t \<times> device" where
  "cudaGetLastError dev = (last_error dev, dev\<lparr>last_error := cudaSuccess\<rparr>)"

text \<open>
  A failing runtime call leaves its error in \<open>last_error\<close>; \<^verbatim>\<open>cudaGetLastError\<close> returns
  and clears it. A launch that the runtime rejects starts no worker. An accepted launch runs
  one worker for each thread index below \<open>blockDim\<close> in each block below \<open>gridDim\<close>.
  The workers of the three integration kernels read through textures and write each at its
  own particle, so running them one after the other loses nothing.
\<close>

definition run_threads :: "32 word \<Rightarrow> (32 word \<Rightarrow> 's \<Rightarrow> 's) \<Rightarrow> 's \<Rightarrow> 's" where
  "run_threads blockDim thread s = fold (\<lambda>t. thread (of_nat t)) [0..<unat blockDim] s"

definition run_blocks :: "32 word \<Rightarrow> (32 word \<Rightarrow> 's \<Rightarrow> 's) \<Rightarrow> 's \<Rightarrow> 's" where
  "run_blocks gridDim block s = fold (\<lambda>b. block (of_nat b)) [0..<unat gridDim] s"

definition launch ::
  "device \<Rightarrow> 32 word \<Rightarrow> 32 word \<Rightarrow> (32 word \<Rightarrow> 32 word \<Rightarrow> 's \<Rightarrow> 's) \<Rightarrow> 's \<Rightarrow> device \<times> 's" where
  "launch dev grid threads block s =
     (let error = launch_status dev grid threads in
      if error = cudaSuccess
      then (dev\<lparr>launched := launched dev + 1\<rparr>, run_blocks grid (\<lambda>b. block b threads) s)
      else (dev\<lparr>last_error := error\<rparr>, s))"

section \<open>Step one\<close>

definition gpu_npt_step_one_kernel ::
  "textures \<Rightarrow> (nat \<Rightarrow> 32 word) \<Rightarrow> 32 word \<Rightarrow> real \<Rightarrow> real \<Rightarrow> real
     \<Rightarrow> 32 word \<Rightarrow> 32 word \<Rightarrow> 32 word \<Rightarrow> gpu_pdata_arrays \<Rightarrow> gpu_pdata_arrays" where
  "gpu_npt_step_one_kernel tex d_group_members group_size exp_v_fac exp_r_fac deltaT
       blockIdx blockDim threadIdx pdata =
     (let group_idx = blockIdx * blockDim + threadIdx;
          exp_r_fac_inv = 1 / exp_r_fac
      in if group_idx < group_size then
           let idx = unat (d_group_members (unat group_idx));
               p = pdata_pos_tex tex idx;
               px = fx p; py = fy p; pz = fz p; pw = fw p;
               v = pdata_vel_tex tex idx;
               a = pdata_accel_tex tex idx;
               v = v\<lparr>fx := fx v * exp_v_fac * exp_v_fac + (1 / 2) * deltaT * exp_v_fac * fx a\<rparr>;
               px = px + fx v * exp_r_fac_inv * deltaT;
               v = v\<lparr>fy := fy v * exp_v_fac * exp_v_fac + (1 / 2) * deltaT * exp_v_fac * fy a\<rparr>;
               py = py + fy v * exp_r_fac_inv * deltaT;
               v = v\<lparr>fz := fz v * exp_v_fac * exp_v_fac + (1 / 2) * deltaT * exp_v_fac * fz a\<rparr>;
               pz = pz + fz v * exp_r_fac_inv * deltaT;
               pos2 = \<lparr>fx = px, fy = py, fz = pz, fw = pw\<rparr>
           in pdata\<lparr>pos := (pos pdata)(idx := pos2), vel := (vel pdata)(idx := v)\<rparr>
         else pdata)"

definition gpu_npt_step_one ::
  "device \<Rightarrow> gpu_pdata_arrays \<Rightarrow> (nat \<Rightarrow> 32 word) \<Rightarrow> 32 word \<Rightarrow> 32 word \<Rightarrow> 32 word
     \<Rightarrow> real \<Rightarrow> real \<Rightarrow> real \<Rightarrow> cudaError_t \<times> device \<times> gpu_pdata_arrays" where
  "gpu_npt_step_one dev pdata d_group_members group_size block_size num_blocks Xi Eta deltaT =
     (let grid = num_blocks; threads = block_size;
          (error, dev) = cudaBindTexture dev Pdata_pos_tex (pdata_pos_tex_update (\<lambda>_. pos pdata))
      in if error \<noteq> cudaSuccess then (error, dev, pdata) else
      let (error, dev) = cudaBindTexture dev Pdata_vel_tex (pdata_vel_tex_update (\<lambda>_. vel pdata))
      in if error \<noteq> cudaSuccess then (error, dev, pdata) else
      let (error, dev) =
            cudaBindTexture dev Pdata_accel_tex (pdata_accel_tex_update (\<lambda>_. accel pdata))
      in if error \<noteq> cudaSuccess then (error, dev, pdata) else
      let exp_v_fac = exp (- 1 / 4 * (Eta + Xi) * deltaT);
          exp_r_fac = exp (1 / 2 * Eta * deltaT);
          (dev, pdata) =
            launch dev grid threads
              (\<lambda>b bd. run_threads bd
                 (gpu_npt_step_one_kernel (texs dev) d_group_members group_size
                    exp_v_fac exp_r_fac deltaT b bd))
              pdata
      in if \<not> g_gpu_error_checking dev then (cudaSuccess, dev, pdata)
         else let dev = cudaThreadSynchronize dev;
                  (error, dev) = cudaGetLastError dev
              in (error, dev, pdata))"

section \<open>Box rescaling\<close>

text \<open>
  \<^verbatim>\<open>rintf\<close> rounds to the nearest integer, a tie to the even neighbour (the default
  rounding mode); its result is still a \<^verbatim>\<open>float\<close>. The cast \<^verbatim>\<open>(int)\<close> drops the fraction
  towards zero; a value outside the range of \<^verbatim>\<open>int\<close>, where C leaves the cast undefined,
  is reduced modulo \<open>2 ^ 32\<close> here, as the addition to the image counter is.
\<close>

definition rintf :: "real \<Rightarrow> real" where
  "rintf v =
     (let f = \<lfloor>v\<rfloor>; d = v - of_int f
      in of_int (if d < 1 / 2 then f
                 else if 1 / 2 < d then f + 1
                 else if even f then f else f + 1))"

definition float2int :: "real \<Rightarrow> 32 word" where
  "float2int v = word_of_int (if 0 \<le> v then \<lfloor>v\<rfloor> else \<lceil>v\<rceil>)"

definition gpu_npt_boxscale_kernel ::
  "textures \<Rightarrow> gpu_boxsize \<Rightarrow> real
     \<Rightarrow> 32 word \<Rightarrow> 32 word \<Rightarrow> 32 word \<Rightarrow> gpu_pdata_arrays \<Rightarrow> gpu_pdata_arrays" where
  "gpu_npt_boxscale_kernel tex box box_len_scale blockIdx blockDim threadIdx pdata =
     (let idx = blockIdx * blockDim + threadIdx
      in if idx < local_num pdata then
           let p = pdata_pos_tex tex (unat idx);
               px = fx p * box_len_scale;
               py = fy p * box_len_scale;
               pz = fz p * box_len_scale;
               pw = fw p * box_len_scale;
               img = pdata_image_tex tex (unat idx);
               x_shift = rintf (px * Lxinv box);
               px = px - Lx box * x_shift;
               img = img\<lparr>ix := ix img + float2int x_shift\<rparr>;
               y_shift = rintf (py * Lyinv box);
               py = py - Ly box * y_shift;
               img = img\<lparr>iy := iy img + float2int y_shift\<rparr>;
               z_shift = rintf (pz * Lzinv box);
               pz = pz - Lz box * z_shift;
               img = img\<lparr>iz := iz img + float2int z_shift\<rparr>;
               pos2 = \<lparr>fx = px, fy = py, fz = pz, fw = pw\<rparr>
           in pdata\<lparr>pos := (pos pdata)(unat idx := pos2),
                    image_arr := (image_arr pdata)(unat idx := img)\<rparr>
         else pdata)"

text \<open>
  The grid of the box rescaling is \<^verbatim>\<open>(pdata.local_num / block_size) + 1\<close> blocks, computed
  in \<^verbatim>\<open>unsigned int\<close>. The driver divides by \<open>block_size\<close> on the host before anything
  else; an integer division by zero has no result there, which is \<open>None\<close>.
\<close>

definition boxscale_grid :: "32 word \<Rightarrow> 32 word \<Rightarrow> 32 word" where
  "boxscale_grid n block_size = (n div block_size) + 1"

definition gpu_npt_boxscale ::
  "device \<Rightarrow> gpu_pdata_arrays \<Rightarrow> gpu_boxsize \<Rightarrow> 32 word \<Rightarrow> real \<Rightarrow> real
     \<Rightarrow> (cudaError_t \<times> device \<times> gpu_pdata_arrays) option" where
  "gpu_npt_boxscale dev pdata box block_size Eta deltaT =
     (if block_size = 0 then None else
      let grid = boxscale_grid (local_num pdata) block_size; threads = block_size;
          box_len_scale = exp (Eta * deltaT);
          scaled_box = box;
          scaled_box = scaled_box\<lparr>Lx := Lx scaled_box * box_len_scale\<rparr>;
          scaled_box = scaled_box\<lparr>Ly := Ly scaled_box * box_len_scale\<rparr>;
          scaled_box = scaled_box\<lparr>Lz := Lz scaled_box * box_len_scale\<rparr>;
          scaled_box = scaled_box\<lparr>Lxinv := 1 / Lx scaled_box\<rparr>;
          scaled_box = scaled_box\<lparr>Lyinv := 1 / Ly scaled_box\<rparr>;
          scaled_box = scaled_box\<lparr>Lzinv := 1 / Lz scaled_box\<rparr>;
          (error, dev) = cudaBindTexture dev Pdata_pos_tex (pdata_pos_tex_update (\<lambda>_. pos pdata))
      in if error \<noteq> cudaSuccess then Some (error, dev, pdata) else
      let (error, dev) =
            cudaBindTexture dev Pdata_image_tex (pdata_image_tex_update (\<lambda>_. image_arr pdata))
      in if error \<noteq> cudaSuccess then Some (error, dev, pdata) else
      let (dev, pdata) =
            launch dev grid threads
              (\<lambda>b bd. run_threads bd
                 (gpu_npt_boxscale_kernel (texs dev) scaled_box box_len_scale b bd))
              pdata
      in if \<not> g_gpu_error_checking dev then Some (cudaSuccess, dev, pdata)
         else let dev = cudaThreadSynchronize dev;
                  (error, dev) = cudaGetLastError dev
              in Some (error, dev, pdata))"

section \<open>Step two\<close>

text \<open>
  The kernel divides by the mass without a test. A \<^verbatim>\<open>float\<close> division by zero gives an
  infinity or a NaN, which no real number stands for: \<open>fdiv\<close> has no result there, and a
  launch in which some worker divides by zero has none either.
\<close>

definition fdiv :: "real \<Rightarrow> real \<Rightarrow> real option" where
  "fdiv a b = (if b = 0 then None else Some (a / b))"

definition gpu_npt_step_two_kernel ::
  "textures \<Rightarrow> (nat \<Rightarrow> 32 word) \<Rightarrow> 32 word \<Rightarrow> real \<Rightarrow> real
     \<Rightarrow> 32 word \<Rightarrow> 32 word \<Rightarrow> 32 word \<Rightarrow> gpu_pdata_arrays \<Rightarrow> gpu_pdata_arrays option" where
  "gpu_npt_step_two_kernel tex d_group_members group_size exp_v_fac deltaT
       blockIdx blockDim threadIdx pdata =
     (let group_idx = blockIdx * blockDim + threadIdx
      in if group_idx < group_size then
           let idx = unat (d_group_members (unat group_idx));
               a = net_force_tex tex idx;
               m = pdata_mass_tex tex idx
           in do {
             ax \<leftarrow> fdiv (fx a) m;
             ay \<leftarrow> fdiv (fy a) m;
             az \<leftarrow> fdiv (fz a) m;
             let a = a\<lparr>fx := ax, fy := ay, fz := az\<rparr>;
                 v = pdata_vel_tex tex idx;
                 v = v\<lparr>fx := fx v * exp_v_fac * exp_v_fac + (1 / 2) * deltaT * exp_v_fac * fx a\<rparr>;
                 v = v\<lparr>fy := fy v * exp_v_fac * exp_v_fac + (1 / 2) * deltaT * exp_v_fac * fy a\<rparr>;
                 v = v\<lparr>fz := fz v * exp_v_fac * exp_v_fac + (1 / 2) * deltaT * exp_v_fac * fz a\<rparr>
             in Some (pdata\<lparr>vel := (vel pdata)(idx := v), accel := (accel pdata)(idx := a)\<rparr>)
           }
         else Some pdata)"

definition gpu_npt_step_two ::
  "device \<Rightarrow> gpu_pdata_arrays \<Rightarrow> (nat \<Rightarrow> 32 word) \<Rightarrow> 32 word \<Rightarrow> (nat \<Rightarrow> float4)
     \<Rightarrow> 32 word \<Rightarrow> 32 word \<Rightarrow> real \<Rightarrow> real \<Rightarrow> real
     \<Rightarrow> (cudaError_t \<times> device \<times> gpu_pdata_arrays) option" where
  "gpu_npt_step_two dev pdata d_group_members group_size d_net_force block_size num_blocks
       Xi Eta deltaT =
     (let grid = num_blocks; threads = block_size;
          exp_v_fac = exp (- 1 / 4 * (Eta + Xi) * deltaT);
          (error, dev) = cudaBindTexture dev Pdata_vel_tex (pdata_vel_tex_update (\<lambda>_. vel pdata))
      in if error \<noteq> cudaSuccess then Some (error, dev, pdata) else
      let (error, dev) =
            cudaBindTexture dev Pdata_mass_tex (pdata_mass_tex_update (\<lambda>_. mass pdata))
      in if error \<noteq> cudaSuccess then Some (error, dev, pdata) else
      let (error, dev) =
            cudaBindTexture dev Net_force_tex (net_force_tex_update (\<lambda>_. d_net_force))
      in if error \<noteq> cudaSuccess then Some (error, dev, pdata) else
      let (dev, run) =
            launch dev grid threads
              (\<lambda>b bd. run_threads bd
                 (\<lambda>t s. s \<bind>
                    gpu_npt_step_two_kernel (texs dev) d_group_members group_size
                      exp_v_fac deltaT b bd t))
              (Some pdata)
      in do {
        pdata \<leftarrow> run;
        if \<not> g_gpu_error_checking dev then Some (cudaSuccess, dev, pdata)
        else let dev = cudaThreadSynchronize dev;
                 (error, dev) = cudaGetLastError dev
             in Some (error, dev, pdata)
      })"

section \<open>Partial sums\<close>

text \<open>
  The two reduction kernels work a block at a time through \<open>npt_sdata\<close>, the block's
  shared scratch array. Between two barriers every worker of the block does its part, so a
  block is run barrier to barrier: all workers store their contribution, then all workers
  make one pass of the halving loop, and again until \<open>offs\<close> is zero. \<open>offs\<close> is an
  \<^verbatim>\<open>int\<close> that starts below \<open>2 ^ 31\<close> and only shrinks, so it is read as unsigned.
\<close>

record reduction_arrays =
  npt_sdata :: "nat \<Rightarrow> real"
  d_partial_sum2K :: "nat \<Rightarrow> real"
  d_partial_sumW :: "nat \<Rightarrow> real"

definition reduce_pass :: "32 word \<Rightarrow> 32 word \<Rightarrow> (nat \<Rightarrow> real) \<Rightarrow> (nat \<Rightarrow> real)" where
  "reduce_pass blockDim offs sdata =
     run_threads blockDim
       (\<lambda>threadIdx sd.
          if threadIdx < offs
          then sd(unat threadIdx := sd (unat threadIdx) + sd (unat (threadIdx + offs)))
          else sd)
       sdata"

function reduce_loop :: "32 word \<Rightarrow> 32 word \<Rightarrow> (nat \<Rightarrow> real) \<Rightarrow> (nat \<Rightarrow> real)" where
  "reduce_loop blockDim offs sdata =
     (if 0 < offs then reduce_loop blockDim (drop_bit 1 offs) (reduce_pass blockDim offs sdata)
      else sdata)"
  by pat_completeness auto
termination
proof (relation "measure (\<lambda>(blockDim, offs, sdata). unat offs)")
  show "wf (measure (\<lambda>(blockDim, offs, sdata). unat offs))"
    by simp
next
  fix blockDim offs :: "32 word" and sdata :: "nat \<Rightarrow> real"
  assume "0 < offs"
  then have "0 < unat offs"
    by (simp add: word_less_nat_alt)
  then have "unat offs div 2 < unat offs"
    by simp
  then show "((blockDim, drop_bit 1 offs, reduce_pass blockDim offs sdata), (blockDim, offs, sdata))
      \<in> measure (\<lambda>(blockDim, offs, sdata). unat offs)"
    by (simp add: drop_bit_eq_div unat_div)
qed

definition psq2_of :: "float4 \<Rightarrow> real \<Rightarrow> real" where
  "psq2_of v m = m * (fx v * fx v + fy v * fy v + fz v * fz v)"

definition gpu_npt_group_temperature_kernel ::
  "textures \<Rightarrow> (nat \<Rightarrow> 32 word) \<Rightarrow> 32 word
     \<Rightarrow> 32 word \<Rightarrow> 32 word \<Rightarrow> reduction_arrays \<Rightarrow> reduction_arrays" where
  "gpu_npt_group_temperature_kernel tex d_group_members group_size blockIdx blockDim st =
     (let sdata =
            run_threads blockDim
              (\<lambda>threadIdx sd.
                 let group_idx = blockIdx * blockDim + threadIdx;
                     psq2 =
                       (if group_idx < group_size then
                          let idx = unat (d_group_members (unat group_idx))
                          in psq2_of (pdata_vel_tex tex idx) (pdata_mass_tex tex idx)
                        else 0)
                 in sd(unat threadIdx := psq2))
              (npt_sdata st);
          offs = drop_bit 1 blockDim;
          sdata = reduce_loop blockDim offs sdata
      in st\<lparr>npt_sdata := sdata,
             d_partial_sum2K := (d_partial_sum2K st)(unat blockIdx := sdata 0)\<rparr>)"

definition gpu_npt_group_temperature ::
  "device \<Rightarrow> reduction_arrays \<Rightarrow> gpu_pdata_arrays \<Rightarrow> (nat \<Rightarrow> 32 word) \<Rightarrow> 32 word
     \<Rightarrow> 32 word \<Rightarrow> 32 word \<Rightarrow> cudaError_t \<times> device \<times> reduction_arrays" where
  "gpu_npt_group_temperature dev st pdata d_group_members group_size block_size num_blocks =
     (let grid = num_blocks; threads = block_size;
          (error, dev) = cudaBindTexture dev Pdata_vel_tex (pdata_vel_tex_update (\<lambda>_. vel pdata))
      in if error \<noteq> cudaSuccess then (error, dev, st) else
      let (error, dev) =
            cudaBindTexture dev Pdata_mass_tex (pdata_mass_tex_update (\<lambda>_. mass pdata))
      in if error \<noteq> cudaSuccess then (error, dev, st) else
      let (dev, st) =
            launch dev grid threads
              (gpu_npt_group_temperature_kernel (texs dev) d_group_members group_size)
              st
      in if \<not> g_gpu_error_checking dev then (cudaSuccess, dev, st)
         else let dev = cudaThreadSynchronize dev;
                  (error, dev) = cudaGetLastError dev
              in (error, dev, st))"

definition gpu_npt_pressure_kernel2 ::
  "gpu_pdata_arrays \<Rightarrow> (nat \<Rightarrow> real)
     \<Rightarrow> 32 word \<Rightarrow> 32 word \<Rightarrow> reduction_arrays \<Rightarrow> reduction_arrays" where
  "gpu_npt_pressure_kernel2 pdata d_net_virial blockIdx blockDim st =
     (let sdata =
            run_threads blockDim
              (\<lambda>threadIdx sd.
                 let idx = blockIdx * blockDim + threadIdx;
                     virial = (if idx < local_num pdata then d_net_virial (unat idx) else 0)
                 in sd(unat threadIdx := virial))
              (npt_sdata st);
          offs = drop_bit 1 blockDim;
          sdata = reduce_loop blockDim offs sdata;
          st = st\<lparr>npt_sdata := sdata,
                  d_partial_sumW := (d_partial_sumW st)(unat blockIdx := sdata 0)\<rparr>;
          sdata =
            run_threads blockDim
              (\<lambda>threadIdx sd.
                 let idx = blockIdx * blockDim + threadIdx;
                     psq2 =
                       (if idx < local_num pdata
                        then psq2_of (vel pdata (unat idx)) (mass pdata (unat idx))
                        else 0)
                 in sd(unat threadIdx := psq2))
              (npt_sdata st);
          offs = drop_bit 1 blockDim;
          sdata = reduce_loop blockDim offs sdata
      in st\<lparr>npt_sdata := sdata,
             d_partial_sum2K := (d_partial_sum2K st)(unat blockIdx := sdata 0)\<rparr>)"

definition gpu_npt_pressure2 ::
  "device \<Rightarrow> reduction_arrays \<Rightarrow> gpu_pdata_arrays \<Rightarrow> (nat \<Rightarrow> real)
     \<Rightarrow> 32 word \<Rightarrow> 32 word \<Rightarrow> cudaError_t \<times> device \<times> reduction_arrays" where
  "gpu_npt_pressure2 dev st pdata d_net_virial block_size num_blocks =
     (let grid = num_blocks; threads = block_size;
          (dev, st) = launch dev grid threads (gpu_npt_pressure_kernel2 pdata d_net_virial) st
      in if \<not> g_gpu_error_checking dev then (cudaSuccess, dev, st)
         else let dev = cudaThreadSynchronize dev;
                  (error, dev) = cudaGetLastError dev
              in (error, dev, st))"

section \<open>What one launch stores\<close>

text \<open>
  The value a worker of each kernel stores for particle \<open>idx\<close>, as a function of the bound
  textures, and the set of particles a worker writes. The lemmas below show that the kernels
  store exactly these.
\<close>

definition step_one_vel :: "textures \<Rightarrow> real \<Rightarrow> real \<Rightarrow> nat \<Rightarrow> float4" where
  "step_one_vel tex exp_v_fac deltaT idx =
     (let v = pdata_vel_tex tex idx; a = pdata_accel_tex tex idx
      in v\<lparr>fx := fx v * exp_v_fac * exp_v_fac + (1 / 2) * deltaT * exp_v_fac * fx a,
            fy := fy v * exp_v_fac * exp_v_fac + (1 / 2) * deltaT * exp_v_fac * fy a,
            fz := fz v * exp_v_fac * exp_v_fac + (1 / 2) * deltaT * exp_v_fac * fz a\<rparr>)"

definition step_one_pos :: "textures \<Rightarrow> real \<Rightarrow> real \<Rightarrow> real \<Rightarrow> nat \<Rightarrow> float4" where
  "step_one_pos tex exp_v_fac exp_r_fac deltaT idx =
     (let p = pdata_pos_tex tex idx; v = step_one_vel tex exp_v_fac deltaT idx
      in \<lparr>fx = fx p + fx v * (1 / exp_r_fac) * deltaT,
          fy = fy p + fy v * (1 / exp_r_fac) * deltaT,
          fz = fz p + fz v * (1 / exp_r_fac) * deltaT,
          fw = fw p\<rparr>)"

definition group_targets :: "(nat \<Rightarrow> 32 word) \<Rightarrow> 32 word \<Rightarrow> 32 word \<Rightarrow> nat \<times> nat \<Rightarrow> nat set" where
  "group_targets d_group_members group_size blockDim k =
     (let group_idx = of_nat (fst k) * blockDim + of_nat (snd k)
      in if group_idx < group_size then {unat (d_group_members (unat group_idx))} else {})"

section \<open>Example inputs\<close>

definition tex_zero :: textures where
  "tex_zero =
     \<lparr>pdata_pos_tex = (\<lambda>_. \<lparr>fx = 0, fy = 0, fz = 0, fw = 0\<rparr>),
      pdata_vel_tex = (\<lambda>_. \<lparr>fx = 0, fy = 0, fz = 0, fw = 0\<rparr>),
      pdata_accel_tex = (\<lambda>_. \<lparr>fx = 0, fy = 0, fz = 0, fw = 0\<rparr>),
      pdata_mass_tex = (\<lambda>_. 0),
      pdata_image_tex = (\<lambda>_. \<lparr>ix = 0, iy = 0, iz = 0, iw = 0\<rparr>),
      net_force_tex = (\<lambda>_. \<lparr>fx = 0, fy = 0, fz = 0, fw = 0\<rparr>)\<rparr>"

definition dev_ok :: device where
  "dev_ok =
     \<lparr>g_gpu_error_checking = True,
      bind_status = (\<lambda>_. cudaSuccess),
      launch_status = (\<lambda>_ _. cudaSuccess),
      kernel_status = cudaSuccess,
      last_error = cudaSuccess,
      launched = 0,
      texs = tex_zero\<rparr>"

definition pdata_ex :: gpu_pdata_arrays where
  "pdata_ex =
     \<lparr>N = 2, local_num = 2,
      pos = (\<lambda>i. \<lparr>fx = of_nat i, fy = 2, fz = 3, fw = 7\<rparr>),
      vel = (\<lambda>_. \<lparr>fx = 1, fy = 0, fz = - 1, fw = 5\<rparr>),
      accel = (\<lambda>_. \<lparr>fx = 2, fy = 4, fz = 6, fw = 0\<rparr>),
      mass = (\<lambda>_. 2),
      image_arr = (\<lambda>_. \<lparr>ix = 0, iy = 0, iz = 0, iw = 0\<rparr>)\<rparr>"

definition members_ex :: "nat \<Rightarrow> 32 word" where
  "members_ex g = (if g = 0 then 1 else 0)"

section \<open>Launches as folds over the workers\<close>

lemma fold_product:
  "fold (\<lambda>b. fold (f b) ts) bs s = fold (\<lambda>(b, t). f b t) (List.product bs ts) s"
proof (induction bs arbitrary: s)
  case Nil
  then show ?case by simp
next
  case (Cons b bs)
  have "fold (\<lambda>(b, t). f b t) (map (Pair b) ts) s = fold (f b) ts s" for s
    by (simp add: fold_map comp_def)
  with Cons show ?case by simp
qed

lemma launch_threads:
  "run_blocks G (\<lambda>b. run_threads B (f b)) s =
     fold (\<lambda>(b, t). f (of_nat b) (of_nat t)) (List.product [0..<unat G] [0..<unat B]) s"
  unfolding run_blocks_def run_threads_def
  by (rule fold_product [of "\<lambda>b t. f (of_nat b) (of_nat t)"])

lemma fold_scatter_inv:
  assumes "P s"
    and "\<And>k s. k \<in> set ks \<Longrightarrow> P s \<Longrightarrow>
          P (step k s) \<and> get (step k s) = (\<lambda>j. if j \<in> T k then val j else get s j)"
  shows "P (fold step ks s) \<and>
     get (fold step ks s) = (\<lambda>j. if j \<in> (\<Union>k\<in>set ks. T k) then val j else get s j)"
  using assms
proof (induction ks arbitrary: s)
  case Nil
  then show ?case by simp
next
  case (Cons k ks)
  have k: "P (step k s)" "get (step k s) = (\<lambda>j. if j \<in> T k then val j else get s j)"
    using Cons.prems by simp_all
  have "P (fold step ks (step k s)) \<and> get (fold step ks (step k s)) =
      (\<lambda>j. if j \<in> (\<Union>k\<in>set ks. T k) then val j else get (step k s) j)"
    by (rule Cons.IH) (simp_all add: k(1) Cons.prems(2))
  with k(2) show ?case
    by (auto simp: fun_eq_iff)
qed

lemma fold_scatter:
  assumes "\<And>k s. k \<in> set ks \<Longrightarrow> get (step k s) = (\<lambda>j. if j \<in> T k then val j else get s j)"
  shows "get (fold step ks s) = (\<lambda>j. if j \<in> (\<Union>k\<in>set ks. T k) then val j else get s j)"
  using fold_scatter_inv [where P = "\<lambda>_. True" and step = step and get = get and T = T
      and val = val and ks = ks and s = s] assms
  by simp

lemma fold_frame:
  assumes "\<And>k s. k \<in> set ks \<Longrightarrow> get (step k s) = get s"
  shows "get (fold step ks s) = get s"
  using assms by (induction ks arbitrary: s) simp_all

lemma fold_guarded:
  assumes "\<And>k s. k \<in> set ks \<Longrightarrow> f k s \<noteq> None"
  shows "fold (\<lambda>k so. so \<bind> f k) ks (Some s) = Some (fold (\<lambda>k s. the (f k s)) ks s)"
  using assms
proof (induction ks arbitrary: s)
  case Nil
  then show ?case by simp
next
  case (Cons k ks)
  from Cons.prems have "f k s \<noteq> None" by simp
  then obtain s' where s': "f k s = Some s'" by blast
  with Cons show ?case by simp
qed

lemma worker_exists:
  fixes g B G :: "32 word"
  assumes "unat g < unat G * unat B"
  shows "\<exists>b < unat G. \<exists>t < unat B. of_nat b * B + of_nat t = g"
proof -
  from assms have B: "0 < unat B"
    by (cases "unat B = 0") simp_all
  let ?b = "unat g div unat B" and ?t = "unat g mod unat B"
  have "?b < unat G"
    using assms B by (simp add: less_mult_imp_div_less)
  moreover have "?t < unat B"
    using B by simp
  moreover have "of_nat ?b * B + of_nat ?t = g"
  proof -
    have "of_nat (unat B) = B"
      by simp
    then have "(of_nat ?b * B + of_nat ?t :: 32 word) = of_nat (?b * unat B + ?t)"
      by (simp only: of_nat_add of_nat_mult)
    also have "\<dots> = of_nat (unat g)"
      by (simp only: div_mult_mod_eq)
    also have "\<dots> = g"
      by simp
    finally show ?thesis .
  qed
  ultimately show ?thesis by blast
qed

section \<open>Step one: properties\<close>

lemma group_targets_cover:
  fixes g G B :: "32 word"
  assumes "g < group_size" and "unat group_size \<le> unat G * unat B"
  shows "unat (d_group_members (unat g))
     \<in> (\<Union>k\<in>set (List.product [0..<unat G] [0..<unat B]). group_targets d_group_members group_size B k)"
proof -
  from assms have "unat g < unat G * unat B"
    by (simp add: word_less_nat_alt)
  then obtain b t where bt: "b < unat G" "t < unat B" "of_nat b * B + of_nat t = g"
    using worker_exists by blast
  then have "(b, t) \<in> set (List.product [0..<unat G] [0..<unat B])"
    by simp
  moreover have "unat (d_group_members (unat g)) \<in> group_targets d_group_members group_size B (b, t)"
    using bt(3) assms(1) by (simp add: group_targets_def)
  ultimately show ?thesis
    by blast
qed

lemma step_one_kernel_pos:
  "pos (gpu_npt_step_one_kernel tex mem gs ev er dt (of_nat (fst k)) B (of_nat (snd k)) pdata) =
     (\<lambda>j. if j \<in> group_targets mem gs B k then step_one_pos tex ev er dt j else pos pdata j)"
  by (auto simp: gpu_npt_step_one_kernel_def group_targets_def step_one_pos_def step_one_vel_def
      Let_def fun_eq_iff)

lemma step_one_kernel_vel:
  "vel (gpu_npt_step_one_kernel tex mem gs ev er dt (of_nat (fst k)) B (of_nat (snd k)) pdata) =
     (\<lambda>j. if j \<in> group_targets mem gs B k then step_one_vel tex ev dt j else vel pdata j)"
  by (auto simp: gpu_npt_step_one_kernel_def group_targets_def step_one_vel_def
      Let_def fun_eq_iff)

lemma step_one_run:
  assumes "bind_status dev Pdata_pos_tex = cudaSuccess"
    and "bind_status dev Pdata_vel_tex = cudaSuccess"
    and "bind_status dev Pdata_accel_tex = cudaSuccess"
    and "launch_status dev num_blocks block_size = cudaSuccess"
  shows "snd (snd (gpu_npt_step_one dev pdata mem gs block_size num_blocks Xi Eta deltaT)) =
     fold (\<lambda>k. gpu_npt_step_one_kernel
               ((texs dev)\<lparr>pdata_pos_tex := pos pdata, pdata_vel_tex := vel pdata,
                   pdata_accel_tex := accel pdata\<rparr>)
               mem gs (exp (- 1 / 4 * (Eta + Xi) * deltaT)) (exp (1 / 2 * Eta * deltaT)) deltaT
               (of_nat (fst k)) block_size (of_nat (snd k)))
       (List.product [0..<unat num_blocks] [0..<unat block_size]) pdata"
  using assms
  by (simp add: gpu_npt_step_one_def cudaBindTexture_def launch_def launch_threads Let_def
      cudaGetLastError_def cudaThreadSynchronize_def case_prod_unfold)

text \<open>
  Claim C1. When the three textures bind, the launch is accepted and the grid has a worker
  for every group member, \<open>gpu_npt_step_one\<close> leaves, for each \<open>g < group_size\<close> with
  \<open>idx = d_group_members[g]\<close>, the velocity \<open>v' = v * velScale\<^sup>2 + 1/2 * deltaT * velScale * a\<close>
  and the position \<open>p' = p + v' * deltaT / posScale\<close> in each of the three components, where
  \<open>velScale = exp (- (Xi + Eta) * deltaT / 4)\<close> and \<open>posScale = exp (Eta * deltaT / 2)\<close>;
  the fourth slots of position and velocity are stored back as they were.
\<close>

theorem step_one_group_update:
  assumes "bind_status dev Pdata_pos_tex = cudaSuccess"
    and "bind_status dev Pdata_vel_tex = cudaSuccess"
    and "bind_status dev Pdata_accel_tex = cudaSuccess"
    and "launch_status dev num_blocks block_size = cudaSuccess"
    and "unat group_size \<le> unat num_blocks * unat block_size"
    and "g < group_size"
  shows "let pdata' = snd (snd (gpu_npt_step_one dev pdata d_group_members group_size
                                  block_size num_blocks Xi Eta deltaT));
             idx = unat (d_group_members (unat g));
             velScale = exp (- (Xi + Eta) * deltaT / 4);
             posScale = exp (Eta * deltaT / 2);
             p = pos pdata idx; v = vel pdata idx; a = accel pdata idx;
             p' = pos pdata' idx; v' = vel pdata' idx
         in fx v' = fx v * velScale\<^sup>2 + 1 / 2 * deltaT * velScale * fx a
          \<and> fy v' = fy v * velScale\<^sup>2 + 1 / 2 * deltaT * velScale * fy a
          \<and> fz v' = fz v * velScale\<^sup>2 + 1 / 2 * deltaT * velScale * fz a
          \<and> fx p' = fx p + fx v' * deltaT / posScale
          \<and> fy p' = fy p + fy v' * deltaT / posScale
          \<and> fz p' = fz p + fz v' * deltaT / posScale
          \<and> fw p' = fw p \<and> fw v' = fw v"
proof -
  let ?ks = "List.product [0..<unat num_blocks] [0..<unat block_size]"
  let ?tex = "(texs dev)\<lparr>pdata_pos_tex := pos pdata, pdata_vel_tex := vel pdata,
                   pdata_accel_tex := accel pdata\<rparr>"
  let ?ev = "exp (- 1 / 4 * (Eta + Xi) * deltaT)"
  let ?er = "exp (1 / 2 * Eta * deltaT)"
  let ?idx = "unat (d_group_members (unat g))"
  let ?pdata' = "snd (snd (gpu_npt_step_one dev pdata d_group_members group_size
                                  block_size num_blocks Xi Eta deltaT))"
  have run: "?pdata' = fold (\<lambda>k. gpu_npt_step_one_kernel ?tex d_group_members group_size ?ev ?er
      deltaT (of_nat (fst k)) block_size (of_nat (snd k))) ?ks pdata"
    using assms(1-4) by (rule step_one_run)
  have mem: "?idx \<in> (\<Union>k\<in>set ?ks. group_targets d_group_members group_size block_size k)"
    using assms(6,5) by (rule group_targets_cover)
  have p': "pos ?pdata' ?idx = step_one_pos ?tex ?ev ?er deltaT ?idx"
    unfolding run using mem
    by (subst fold_scatter [where get = pos and T = "group_targets d_group_members group_size block_size"
          and val = "step_one_pos ?tex ?ev ?er deltaT"])
      (simp_all only: step_one_kernel_pos if_True)
  have v': "vel ?pdata' ?idx = step_one_vel ?tex ?ev deltaT ?idx"
    unfolding run using mem
    by (subst fold_scatter [where get = vel and T = "group_targets d_group_members group_size block_size"
          and val = "step_one_vel ?tex ?ev deltaT"])
      (simp_all only: step_one_kernel_vel if_True)
  have ev: "- 1 / 4 * (Eta + Xi) * deltaT = - (Xi + Eta) * deltaT / 4"
    by (simp add: algebra_simps)
  have er: "1 / 2 * Eta * deltaT = Eta * deltaT / 2"
    by simp
  show ?thesis
    unfolding Let_def p' v' ev er
    by (simp add: step_one_pos_def step_one_vel_def Let_def power2_eq_square field_simps)
qed

theorem step_one_group_update_witness:
  "let pdata' = snd (snd (gpu_npt_step_one dev_ok pdata_ex members_ex 2 2 1 1 1 2));
       idx = unat (members_ex (unat (0 :: 32 word)));
       velScale = exp (- (1 + 1) * 2 / 4);
       posScale = exp (1 * 2 / 2);
       p = pos pdata_ex idx; v = vel pdata_ex idx; a = accel pdata_ex idx;
       p' = pos pdata' idx; v' = vel pdata' idx
   in fx v' = fx v * velScale\<^sup>2 + 1 / 2 * 2 * velScale * fx a
    \<and> fy v' = fy v * velScale\<^sup>2 + 1 / 2 * 2 * velScale * fy a
    \<and> fz v' = fz v * velScale\<^sup>2 + 1 / 2 * 2 * velScale * fz a
    \<and> fx p' = fx p + fx v' * 2 / posScale
    \<and> fy p' = fy p + fy v' * 2 / posScale
    \<and> fz p' = fz p + fz v' * 2 / posScale
    \<and> fw p' = fw p \<and> fw v' = fw v"
  by (rule step_one_group_update [where dev = dev_ok and pdata = pdata_ex
        and d_group_members = members_ex and group_size = 2 and block_size = 2
        and num_blocks = 1 and Xi = 1 and Eta = 1 and deltaT = 2 and g = 0])
    (simp_all add: dev_ok_def)

end
